theory Spec2Isabelle
  imports Main
begin

section \<open>Strings as Python sees them\<close>

text \<open>
  Text is modelled as \<open>string\<close>, a list of characters with code points 0 to 255. The
  helpers below are the Python string operations the sources use, restricted to that
  range: \<open>str.strip\<close>, \<open>str.split('\n')\<close>, \<open>str.startswith\<close>, the operator \<open>in\<close> on
  strings, and the two regular expressions of \<^verbatim>\<open>src/uhubctl.py\<close>.
\<close>

text \<open>Python's \<open>str.isspace\<close> on one character; the regular expression class \<open>\s\<close> is
  the same set: TAB, LF, VT, FF, CR, the separators 28 to 31, space, NEL and NBSP.\<close>

definition isspace :: "char \<Rightarrow> bool" where
  "isspace c = (of_char c \<in> {9, 10, 11, 12, 13, 28, 29, 30, 31, 32, 133, 160 :: nat})"

text \<open>The regular expression class \<open>\d\<close>: below code point 256 the decimal digits are
  \<open>0\<close> to \<open>9\<close> only.\<close>

definition isdigit :: "char \<Rightarrow> bool" where
  "isdigit c = (48 \<le> (of_char c :: nat) \<and> (of_char c :: nat) \<le> 57)"

definition strip :: "string \<Rightarrow> string" where
  "strip s = rev (dropWhile isspace (rev (dropWhile isspace s)))"

text \<open>\<open>s.split('\n')\<close>: the pieces between line feeds; the empty string gives one empty
  piece.\<close>

fun split_nl :: "string \<Rightarrow> string list" where
  "split_nl [] = [[]]"
| "split_nl (c # cs) =
     (if c = CHR 0x0A then [] # split_nl cs
      else (case split_nl cs of [] \<Rightarrow> [[c]] | l # ls \<Rightarrow> (c # l) # ls))"

definition startswith :: "string \<Rightarrow> string \<Rightarrow> bool" where
  "startswith s p = (take (length p) s = p)"

text \<open>\<open>sub in s\<close> for strings: \<open>sub\<close> occurs in \<open>s\<close> at some position.\<close>

fun str_in :: "string \<Rightarrow> string \<Rightarrow> bool" where
  "str_in sub [] = (sub = [])"
| "str_in sub (c # cs) = (startswith (c # cs) sub \<or> str_in sub cs)"

text \<open>\<open>int(digits)\<close> on a string of decimal digits. The run of digits is taken to be
  within the length that the interpreter accepts for the conversion.\<close>

definition int_of_digits :: "string \<Rightarrow> int" where
  "int_of_digits ds = foldl (\<lambda>a c. 10 * a + (int (of_char c) - 48)) 0 ds"

text \<open>\<open>re.search(r'hub (\S+)', line)\<close>: the leftmost position where \<open>hub \<close> is followed by
  a character that is not white space; group 1 is the longest run of such characters from
  there (\<open>+\<close> is greedy and nothing follows it in the pattern).\<close>

fun re_search_hub :: "string \<Rightarrow> string option" where
  "re_search_hub [] = None"
| "re_search_hub (c # cs) =
     (if startswith (c # cs) ''hub '' \<and> takeWhile (\<lambda>x. \<not> isspace x) (drop 4 (c # cs)) \<noteq> []
      then Some (takeWhile (\<lambda>x. \<not> isspace x) (drop 4 (c # cs)))
      else re_search_hub cs)"

text \<open>\<open>re.search(r'Port (\d+):', line)\<close>: the leftmost position where \<open>Port \<close> is followed
  by one or more digits and then a colon. A run of digits that is not followed by a colon
  cannot be shortened into a match, since the character after a shorter run is a digit.\<close>

fun re_search_port :: "string \<Rightarrow> int option" where
  "re_search_port [] = None"
| "re_search_port (c # cs) =
     (if startswith (c # cs) ''Port '' \<and> takeWhile isdigit (drop 5 (c # cs)) \<noteq> []
         \<and> startswith (dropWhile isdigit (drop 5 (c # cs))) '':''
      then Some (int_of_digits (takeWhile isdigit (drop 5 (c # cs))))
      else re_search_port cs)"

text \<open>\<open>'\n'.join(lines)\<close>, used to write the example outputs line by line.\<close>

fun join_nl :: "string list \<Rightarrow> string" where
  "join_nl [] = []"
| "join_nl [l] = l"
| "join_nl (l # m # ls) = l @ CHR 0x0A # join_nl (m # ls)"

section \<open>The power-control wrapper (\<^verbatim>\<open>src/uhubctl.py\<close>)\<close>

text \<open>The controller object has one field, the captured output of the last command.\<close>

record Uhubctl =
  last_cmd_output :: string

text \<open>What \<open>subprocess.run\<close> hands back: the exit code and the two decoded streams.\<close>

record CompletedProcess =
  returncode :: int
  stdout :: string
  stderr :: string

definition are_devices_detected :: "string \<Rightarrow> bool" where
  "are_devices_detected uhubctl_stderr =
     (if str_in ''No compatible devices detected!'' uhubctl_stderr then False else True)"

text \<open>
  \<open>__run_cmd\<close>, with the result of the process as an argument (the command line only
  decides which process runs) and the printed lines returned beside the new controller
  state; the printed message, which quotes the command line in the source, is shortened.
  The three assignments to \<open>last_cmd_output\<close> are kept in the order of the source: only
  the branch for "no devices" returns early; the branch that prints the error falls
  through to the last assignment.
\<close>

definition run_cmd :: "CompletedProcess \<Rightarrow> Uhubctl \<Rightarrow> Uhubctl \<times> string list" where
  "run_cmd uhub_proc self =
     (let uhub_err = stderr uhub_proc in
      if returncode uhub_proc \<noteq> 0 then
        (if \<not> are_devices_detected uhub_err then (self\<lparr>last_cmd_output := ''''\<rparr>, [])
         else
           (let printed = [''error: uhubctl command failed''];
                self1 = self\<lparr>last_cmd_output := ''''\<rparr>
            in (self1\<lparr>last_cmd_output := stdout uhub_proc\<rparr>, printed)))
      else (self\<lparr>last_cmd_output := stdout uhub_proc\<rparr>, []))"

definition line_search_update_hub :: "string \<Rightarrow> string option \<Rightarrow> string option" where
  "line_search_update_hub output_line current_hub =
     (if startswith output_line ''Current status for hub'' then
        (case re_search_hub output_line of Some h \<Rightarrow> Some h | None \<Rightarrow> current_hub)
      else current_hub)"

definition line_search_port :: "string \<Rightarrow> int option" where
  "line_search_port output_line =
     (if startswith output_line ''Port'' then re_search_port output_line else None)"

text \<open>\<open>self.last_cmd_output.strip().split('\n')\<close>.\<close>

definition output_lines :: "string \<Rightarrow> string list" where
  "output_lines out = split_nl (strip out)"

text \<open>The loop of \<open>__output_search_port_status\<close>: \<open>current_hub\<close> is the loop state, the
  comparison with the queried pair is by equality, and the four-way classification is the
  body of the \<open>if\<close>.\<close>

fun port_status_loop :: "string list \<Rightarrow> string option \<Rightarrow> string \<Rightarrow> int \<Rightarrow> string" where
  "port_status_loop [] current_hub hub port = ''unknown''"
| "port_status_loop (raw # rest) current_hub hub port =
     (let line = strip raw;
          current_hub = line_search_update_hub line current_hub;
          current_port = line_search_port line
      in if Some hub = current_hub \<and> Some port = current_port then
           (if str_in '' off'' line then ''off''
            else if str_in '' power'' line \<and> str_in ''enable connect'' line then ''on connected''
            else if str_in '' power'' line then ''on''
            else ''unknown'')
         else port_status_loop rest current_hub hub port)"

definition output_search_port_status :: "Uhubctl \<Rightarrow> string \<Rightarrow> int \<Rightarrow> string" where
  "output_search_port_status self hub port =
     port_status_loop (output_lines (last_cmd_output self)) None hub port"

text \<open>The loop of \<open>__output_search_hub_port_by_desc\<close>. The guard is Python truthiness: a
  hub that is \<open>None\<close> or empty and a port that is \<open>None\<close> or \<open>0\<close> are both false.\<close>

fun hub_port_by_desc_loop ::
  "string list \<Rightarrow> string option \<Rightarrow> string \<Rightarrow> string option \<times> int option" where
  "hub_port_by_desc_loop [] current_hub desc_match = (None, None)"
| "hub_port_by_desc_loop (raw # rest) current_hub desc_match =
     (let line = strip raw;
          current_hub = line_search_update_hub line current_hub;
          current_port = line_search_port line
      in if (current_hub \<noteq> None \<and> current_hub \<noteq> Some '''')
            \<and> (current_port \<noteq> None \<and> current_port \<noteq> Some 0)
            \<and> str_in desc_match line
         then (current_hub, current_port)
         else hub_port_by_desc_loop rest current_hub desc_match)"

definition output_search_hub_port_by_desc ::
  "Uhubctl \<Rightarrow> string \<Rightarrow> string option \<times> int option" where
  "output_search_hub_port_by_desc self desc_match =
     hub_port_by_desc_loop (output_lines (last_cmd_output self)) None desc_match"

text \<open>\<open>get_status\<close> and \<open>get_hub_port_by_desc\<close>: run the tool, then search what it
  printed.\<close>

definition get_status :: "CompletedProcess \<Rightarrow> Uhubctl \<Rightarrow> string \<Rightarrow> int \<Rightarrow> string" where
  "get_status uhub_proc self hub port =
     output_search_port_status (fst (run_cmd uhub_proc self)) hub port"

definition get_hub_port_by_desc ::
  "CompletedProcess \<Rightarrow> Uhubctl \<Rightarrow> string \<Rightarrow> string option \<times> int option" where
  "get_hub_port_by_desc uhub_proc self desc_match =
     output_search_hub_port_by_desc (fst (run_cmd uhub_proc self)) desc_match"

subsection \<open>The output protocol in the words of the specification\<close>

text \<open>
  Each trimmed line is paired with the hub section it lies in: a line beginning with
  \<open>Current status for hub\<close> opens the section of the token after \<open>hub \<close>, and the section
  lasts until the next such line.
\<close>

fun hub_sections :: "string option \<Rightarrow> string list \<Rightarrow> (string option \<times> string) list" where
  "hub_sections h [] = []"
| "hub_sections h (raw # rest) =
     (let h' = line_search_update_hub (strip raw) h
      in (h', strip raw) # hub_sections h' rest)"

text \<open>The first line matching a hub/port pair: the first port line carrying that port
  number in a section of that hub.\<close>

definition first_line_of_hub_port :: "string \<Rightarrow> string \<Rightarrow> int \<Rightarrow> string option" where
  "first_line_of_hub_port out hub port =
     map_option snd
       (find (\<lambda>(h, l). h = Some hub \<and> line_search_port l = Some port)
          (hub_sections None (output_lines out)))"

text \<open>The description search as the specification words it: the first port line within
  a hub section whose text contains the substring gives that section's hub and that
  line's port number.\<close>

definition hub_port_by_desc_spec :: "string \<Rightarrow> string \<Rightarrow> string option \<times> int option" where
  "hub_port_by_desc_spec out sub =
     (case find (\<lambda>(h, l). h \<noteq> None \<and> line_search_port l \<noteq> None \<and> str_in sub l)
             (hub_sections None (output_lines out)) of
        None \<Rightarrow> (None, None)
      | Some (h, l) \<Rightarrow> (h, line_search_port l))"

subsection \<open>Example outputs\<close>

text \<open>The sample block of the specification's section on testable properties.\<close>

definition sample_status_output :: string where
  "sample_status_output = join_nl
     [''Current status for hub 2-1 [...]'',
      ''  Port 3: 0263 power 5gbps U3 enable connect [...]'',
      ''Current status for hub 1-1.3 [...]'',
      ''  Port 1: 0100 off'',
      ''  Port 3: 0103 power enable connect [...]'']"

text \<open>The example of the docstring of \<open>__output_search_hub_port_by_desc\<close>.\<close>

definition sample_search_output :: string where
  "sample_search_output = join_nl
     [''Current status for hub 2-1 [0bda:0411 Generic USB3.2 Hub, USB 3.20, 4 ports, ppps]'',
      ''  Port 2: 02a0 power 5gbps Rx.Detect'',
      ''Current status for hub 1-1 [0bda:5411 Generic USB2.1 Hub, USB 2.10, 4 ports, ppps]'',
      ''  Port 2: 0103 power enable connect [04b4:f155 Cypress Semiconductor KitProg3 CMSIS-DAP 1106035A012D2400]'']"

section \<open>Devices (\<^verbatim>\<open>src/devs.py\<close>)\<close>

text \<open>
  \<open>DevAccessSerial\<close> holds the serial address; the static-port runner may build one
  whose address is \<open>None\<close>. \<open>DevSwitch\<close> holds the hub and port of the power switch.
  The field names of \<open>DevSwitch\<close> and the name of a \<open>Device\<close> carry a prefix here,
  because \<open>hub\<close>, \<open>port\<close> and \<open>name\<close> are used for other things in this theory.
\<close>

record DevAccessSerial =
  address :: "string option"

record DevSwitch =
  switch_hub :: string
  switch_port :: int

record Device =
  dev_name :: string
  uid :: string
  features :: "string list"
  access :: "DevAccessSerial option"
  switch :: "DevSwitch option"

text \<open>One entry of \<open>comports()\<close>: the device node of a serial port and its serial
  number, \<open>None\<close> for a port that reports none.\<close>

record ListPortInfo =
  device :: string
  serial_number :: "string option"

text \<open>
  What the constructors of this module read from the machine: the serial ports that
  \<open>comports()\<close> lists, and the result of the \<open>uhubctl\<close> process that searches the hubs
  for a description.
\<close>

record hardware =
  comports :: "ListPortInfo list"
  uhubctl_search :: "string \<Rightarrow> CompletedProcess"

text \<open>The exception that Python raises for a call with a required argument missing, and
  for a call of \<open>None\<close>.\<close>

datatype error = TypeError

definition get_address :: "DevAccessSerial \<Rightarrow> string option" where
  "get_address self = address self"

text \<open>\<open>DevAccessSerial.create_from_uid\<close>: the first listed port whose serial number is the
  uid, \<open>None\<close> when no port has it.\<close>

definition DevAccessSerial_create_from_uid :: "hardware \<Rightarrow> string \<Rightarrow> DevAccessSerial option" where
  "DevAccessSerial_create_from_uid hw uid_arg =
     map_option (\<lambda>port. \<lparr>address = Some (device port)\<rparr>)
       (find (\<lambda>port. serial_number port = Some uid_arg) (comports hw))"

text \<open>\<open>DevSwitch.create_from_uid\<close>: the hub and port that the description search finds;
  the guard \<open>if hub and port\<close> is Python truthiness. The controller is the one that the
  class creates when the module is loaded; every call of \<open>__run_cmd\<close> assigns its
  captured output anew.\<close>

definition DevSwitch_create_from_uid :: "hardware \<Rightarrow> string \<Rightarrow> DevSwitch option" where
  "DevSwitch_create_from_uid hw uid_arg =
     (case get_hub_port_by_desc (uhubctl_search hw uid_arg) \<lparr>last_cmd_output = []\<rparr> uid_arg of
        (Some hub, Some port) \<Rightarrow>
          (if hub \<noteq> [] \<and> port \<noteq> 0 then Some \<lparr>switch_hub = hub, switch_port = port\<rparr>
           else None)
      | _ \<Rightarrow> None)"

text \<open>
  The constructor that \<open>@dataclass\<close> generates for \<open>Device\<close>, followed by
  \<open>__post_init__\<close>. The fields \<open>name\<close>, \<open>uid\<close> and \<open>features\<close> have no default value, so
  a call that leaves one of them out raises \<open>TypeError\<close>; an argument that the call does
  not pass is \<open>None\<close> here. \<open>access\<close> and \<open>switch\<close> may be passed, but \<open>__post_init__\<close>
  assigns both fields anew from the uid, so what was passed for them is not kept.
\<close>

definition Device_init ::
  "hardware \<Rightarrow> string option \<Rightarrow> string option \<Rightarrow> string list option
     \<Rightarrow> DevAccessSerial option \<Rightarrow> DevSwitch option \<Rightarrow> error + Device" where
  "Device_init hw name_arg uid_arg features_arg access_arg switch_arg =
     (case (name_arg, uid_arg, features_arg) of
        (Some n, Some u, Some f) \<Rightarrow>
          Inr \<lparr>dev_name = n, uid = u, features = f,
               access = DevAccessSerial_create_from_uid hw u,
               switch = DevSwitch_create_from_uid hw u\<rparr>
      | _ \<Rightarrow> Inl TypeError)"

text \<open>One entry of the device catalogue, the YAML file of the HIL devices, after
  \<open>dict.get\<close> has put in the defaults for the keys that are absent.\<close>

record catalogue_entry =
  entry_name :: string
  entry_uid :: string
  entry_features :: "string list"

text \<open>\<open>Device.load_device_list_from_yml\<close>: one device for every entry of the catalogue,
  each constructed with its three required fields.\<close>

fun load_device_list_from_yml :: "hardware \<Rightarrow> catalogue_entry list \<Rightarrow> error + Device list" where
  "load_device_list_from_yml hw [] = Inr []"
| "load_device_list_from_yml hw (dev # rest) =
     (case Device_init hw (Some (entry_name dev)) (Some (entry_uid dev))
             (Some (entry_features dev)) None None of
        Inl e \<Rightarrow> Inl e
      | Inr dev_obj \<Rightarrow>
          (case load_device_list_from_yml hw rest of
             Inl e \<Rightarrow> Inl e
           | Inr dev_obj_list \<Rightarrow> Inr (dev_obj # dev_obj_list)))"

section \<open>Test cases (\<^verbatim>\<open>src/run_test_plan.py\<close>, class \<open>TestRunner\<close>)\<close>

datatype DeviceRole = DUT | STUB

text \<open>One entry of a \<open>device:\<close> list of the test plan; \<open>dict.get\<close> gives \<open>None\<close> for a
  key that is absent.\<close>

record supported_dev =
  board :: "string option"
  version :: "string option"

record TestRunner =
  name :: string
  test_script_list :: "string list"
  test_exclude_list :: "string list"
  post_test_delay_ms :: int
  stub_script :: "string option"
  supported_dut_dev_list :: "supported_dev list"
  supported_stub_dev_list :: "supported_dev list"
  post_stub_delay_ms :: int
  custom_args :: "string list"
  type :: string

text \<open>\<open>__determine_implicit_type\<close> reads two fields of the object under construction;
  they are its arguments here.\<close>

definition determine_implicit_type :: "string option \<Rightarrow> int \<Rightarrow> string" where
  "determine_implicit_type stub_script_arg post_test_delay_ms_arg =
     (if stub_script_arg \<noteq> None then ''multi_stub''
      else if post_test_delay_ms_arg > 0 then ''single_post_delay''
      else ''single'')"

text \<open>\<open>TestRunner.__init__\<close>, with the arguments in the order of the source.\<close>

definition TestRunner_init ::
  "string \<Rightarrow> string list \<Rightarrow> string list \<Rightarrow> int \<Rightarrow> string option \<Rightarrow> supported_dev list
     \<Rightarrow> supported_dev list \<Rightarrow> int \<Rightarrow> string option \<Rightarrow> string list \<Rightarrow> TestRunner" where
  "TestRunner_init name_arg test_script_list_arg test_exclude_list_arg post_test_delay_ms_arg
       stub_script_arg supported_dut_dev_list_arg supported_stub_dev_list_arg
       post_stub_delay_ms_arg test_type custom_args_arg =
     \<lparr>name = name_arg,
      test_script_list = test_script_list_arg,
      test_exclude_list = test_exclude_list_arg,
      post_test_delay_ms = post_test_delay_ms_arg,
      stub_script = stub_script_arg,
      supported_dut_dev_list = supported_dut_dev_list_arg,
      supported_stub_dev_list = supported_stub_dev_list_arg,
      post_stub_delay_ms = post_stub_delay_ms_arg,
      custom_args = custom_args_arg,
      type = (case test_type of
                Some t \<Rightarrow> t
              | None \<Rightarrow> determine_implicit_type stub_script_arg post_test_delay_ms_arg)\<rparr>"

datatype runner_func =
  run_single_test | run_single_post_delay_test | run_multi_stub_test | run_multi_test | custom_test

text \<open>\<open>__get_runner_func\<close>: a dictionary lookup that gives \<open>None\<close> for an unknown type.\<close>

definition get_runner_func :: "string \<Rightarrow> runner_func option" where
  "get_runner_func t =
     (if t = ''single'' then Some run_single_test
      else if t = ''single_post_delay'' then Some run_single_post_delay_test
      else if t = ''multi_stub'' then Some run_multi_stub_test
      else if t = ''multi'' then Some run_multi_test
      else if t = ''custom'' then Some custom_test
      else None)"

definition requires_multiple_devs :: "TestRunner \<Rightarrow> bool" where
  "requires_multiple_devs self = str_in ''multi'' (type self)"

definition are_supported_devs_available ::
  "TestRunner \<Rightarrow> string option \<Rightarrow> string option \<Rightarrow> bool" where
  "are_supported_devs_available self dut_port stub_port =
     (if dut_port = None then False
      else if requires_multiple_devs self \<and> stub_port = None then False
      else True)"

definition get_supported_dev_list ::
  "TestRunner \<Rightarrow> DeviceRole \<Rightarrow> string option \<Rightarrow> string option \<Rightarrow> supported_dev list" where
  "get_supported_dev_list self dev_role board_arg version_arg =
     (let device_list =
            (case dev_role of
               DUT \<Rightarrow> supported_dut_dev_list self
             | STUB \<Rightarrow> (if ''multi'' = type self then supported_dut_dev_list self
                        else supported_stub_dev_list self))
      in filter (\<lambda>device. board_arg = board device
                    \<and> (version_arg = None \<or> version device = version_arg)) device_list)"


text \<open>
  \<open>TestRunner.run\<close>: the runner function was looked up from the type at construction; for
  a type outside the five known ones it is \<open>None\<close> and the call raises. The exit code of
  the scripts is what the outside world returns, the argument \<open>ret_code\<close>.
\<close>

definition TestRunner_run :: "TestRunner \<Rightarrow> int \<Rightarrow> error + int" where
  "TestRunner_run self ret_code =
     (case get_runner_func (type self) of
        None \<Rightarrow> Inl TypeError
      | Some f \<Rightarrow> Inr ret_code)"

section \<open>The result tracker (class \<open>TestPlanResults\<close>)\<close>

record TestRetries =
  test_name :: string
  retries :: int

record TestPlanResults =
  pass_test_name_list :: "string list"
  skip_test_name_list :: "string list"
  fail_test_name_list :: "string list"
  max_retries :: int
  retry_test_list :: "TestRetries list"

definition TestPlanResults_init :: "int \<Rightarrow> TestPlanResults" where
  "TestPlanResults_init max_retries_arg =
     \<lparr>pass_test_name_list = [], skip_test_name_list = [], fail_test_name_list = [],
      max_retries = max_retries_arg, retry_test_list = []\<rparr>"

text \<open>\<open>__get_test_retry_index\<close>: the index of the first ledger entry of that name.\<close>

fun get_test_retry_index :: "TestRetries list \<Rightarrow> string \<Rightarrow> nat option" where
  "get_test_retry_index [] n = None"
| "get_test_retry_index (test_retry # rest) n =
     (if test_name test_retry = n then Some 0
      else map_option Suc (get_test_retry_index rest n))"

definition register_skip :: "string \<Rightarrow> TestPlanResults \<Rightarrow> TestPlanResults" where
  "register_skip n self = self\<lparr>skip_test_name_list := skip_test_name_list self @ [n]\<rparr>"

definition register_fail :: "string \<Rightarrow> TestPlanResults \<Rightarrow> TestPlanResults" where
  "register_fail n self =
     (if n \<notin> set (fail_test_name_list self) then
        self\<lparr>fail_test_name_list := fail_test_name_list self @ [n],
             retry_test_list := retry_test_list self
                @ [\<lparr>test_name = n, retries = max_retries self\<rparr>]\<rparr>
      else
        (case get_test_retry_index (retry_test_list self) n of
           None \<Rightarrow> self
         | Some i \<Rightarrow>
             self\<lparr>retry_test_list := (retry_test_list self)
                    [i := (retry_test_list self ! i)
                            \<lparr>retries := retries (retry_test_list self ! i) - 1\<rparr>]\<rparr>))"

text \<open>\<open>list.remove(x)\<close> deletes the first element equal to \<open>x\<close>, which is \<open>remove1\<close>;
  the index found is always inside the list.\<close>

definition register_pass :: "string \<Rightarrow> TestPlanResults \<Rightarrow> TestPlanResults" where
  "register_pass n self =
     (let self1 =
            (if n \<in> set (fail_test_name_list self) then
               (let self2 = self\<lparr>fail_test_name_list := remove1 n (fail_test_name_list self)\<rparr>
                in case get_test_retry_index (retry_test_list self2) n of
                     None \<Rightarrow> self2
                   | Some i \<Rightarrow>
                       self2\<lparr>retry_test_list :=
                               remove1 (retry_test_list self2 ! i) (retry_test_list self2)\<rparr>)
             else self)
      in if n \<notin> set (pass_test_name_list self1)
         then self1\<lparr>pass_test_name_list := pass_test_name_list self1 @ [n]\<rparr>
         else self1)"

text \<open>\<open>filter_retries\<close>: the two nested loops append a test once for every ledger entry
  of its name that has retries left.\<close>

definition filter_retries :: "TestPlanResults \<Rightarrow> TestRunner list \<Rightarrow> TestRunner list" where
  "filter_retries self test_list =
     concat (map (\<lambda>test.
        concat (map (\<lambda>retry. if name test = test_name retry \<and> retries retry > 0
                              then [test] else [])
                  (retry_test_list self)))
        test_list)"

section \<open>Device resolution (classes \<open>TestPlanRunnerHIL\<close> and \<open>TestPlanRunnerPorts\<close>)\<close>

text \<open>
  \<open>__get_devs_for_role\<close> reloads the device catalogue, and with it the state of the
  machine, once for every supported device of the test: \<open>hw i\<close> is the machine as the
  \<open>i\<close>-th load made by one call of \<open>get_test_devs\<close> finds it, and \<open>hil_devs\<close> is the
  content of the catalogue file.
\<close>

fun devs_for_supported ::
  "(nat \<Rightarrow> hardware) \<Rightarrow> catalogue_entry list \<Rightarrow> nat \<Rightarrow> supported_dev list
     \<Rightarrow> error + Device list" where
  "devs_for_supported hw hil_devs i [] = Inr []"
| "devs_for_supported hw hil_devs i (sd # rest) =
     (case load_device_list_from_yml (hw i) hil_devs of
        Inl e \<Rightarrow> Inl e
      | Inr available_devs \<Rightarrow>
          (case devs_for_supported hw hil_devs (Suc i) rest of
             Inl e \<Rightarrow> Inl e
           | Inr dev_list \<Rightarrow>
               Inr (filter (\<lambda>dev. Some (dev_name dev) = board sd
                              \<and> (version sd = None \<or> the (version sd) \<in> set (features dev)))
                      available_devs
                    @ dev_list)))"

definition get_devs_for_role ::
  "(nat \<Rightarrow> hardware) \<Rightarrow> catalogue_entry list \<Rightarrow> nat \<Rightarrow> TestRunner \<Rightarrow> string option
     \<Rightarrow> DeviceRole \<Rightarrow> error + Device list" where
  "get_devs_for_role hw hil_devs i test board_arg device_role =
     devs_for_supported hw hil_devs i (get_supported_dev_list test device_role board_arg None)"

text \<open>
  \<open>TestPlanRunnerHIL.get_test_devs\<close>, statement by statement. It begins with two calls
  \<open>Device()\<close> that pass no argument. The two \<open>for ... break\<close> loops take the first
  element that passes their test, which is \<open>find\<close>; when none does, the variable keeps
  the value it had.
\<close>

definition HIL_get_test_devs ::
  "(nat \<Rightarrow> hardware) \<Rightarrow> catalogue_entry list \<Rightarrow> string option \<Rightarrow> TestRunner
     \<Rightarrow> error + Device \<times> Device" where
  "HIL_get_test_devs hw hil_devs board_arg test =
     (case Device_init (hw 0) None None None None None of
        Inl e \<Rightarrow> Inl e
      | Inr dut_dev \<Rightarrow>
     (case Device_init (hw 0) None None None None None of
        Inl e \<Rightarrow> Inl e
      | Inr stub_dev \<Rightarrow>
     (case get_devs_for_role hw hil_devs 0 test board_arg DUT of
        Inl e \<Rightarrow> Inl e
      | Inr dut_dev_list \<Rightarrow>
          if dut_dev_list = [] then Inr (dut_dev, stub_dev)
          else
            (let dut_dev = (case find (\<lambda>dev. access dev \<noteq> None) dut_dev_list of
                              Some dev \<Rightarrow> dev | None \<Rightarrow> dut_dev)
             in if access dut_dev = None then Inr (dut_dev, stub_dev)
                else if requires_multiple_devs test then
                  (case get_devs_for_role hw hil_devs
                          (length (get_supported_dev_list test DUT board_arg None))
                          test board_arg STUB of
                     Inl e \<Rightarrow> Inl e
                   | Inr stub_dev_list \<Rightarrow>
                       Inr (dut_dev,
                            (case find (\<lambda>dev. access dev \<noteq> None
                                          \<and> get_address (the (access dev))
                                              \<noteq> get_address (the (access dut_dev)))
                                    stub_dev_list of
                               Some dev \<Rightarrow> dev | None \<Rightarrow> stub_dev)))
                else Inr (dut_dev, stub_dev)))))"

text \<open>\<open>TestPlanRunnerPorts.get_test_devs\<close>: two calls of the constructor of \<open>Device\<close>
  that pass an access object built from the configured port and nothing else.\<close>

definition Ports_get_test_devs ::
  "hardware \<Rightarrow> string option \<Rightarrow> string option \<Rightarrow> TestRunner \<Rightarrow> error + Device \<times> Device" where
  "Ports_get_test_devs hw dut_port stub_port test =
     (case Device_init hw None None None (Some \<lparr>address = dut_port\<rparr>) None of
        Inl e \<Rightarrow> Inl e
      | Inr dev_dut \<Rightarrow>
          (case Device_init hw None None None (Some \<lparr>address = stub_port\<rparr>) None of
             Inl e \<Rightarrow> Inl e
           | Inr dev_stub \<Rightarrow> Inr (dev_dut, dev_stub)))"

definition get_test_ports :: "Device \<Rightarrow> Device \<Rightarrow> string option \<times> string option" where
  "get_test_ports dut_dev stub_dev =
     (let dut_port = (if access dut_dev \<noteq> None then get_address (the (access dut_dev)) else None);
          stub_port = (if access stub_dev \<noteq> None then get_address (the (access stub_dev)) else None)
      in (dut_port, stub_port))"

section \<open>The execution loop (class \<open>TestPlanRunner\<close>)\<close>

text \<open>
  What the loop asks of its surroundings at each iteration of its inner \<open>for\<close>: the
  outcome of \<open>self.get_test_devs(test)\<close>, a pair of devices or the exception that the
  call raises, and the exit code of the test's scripts. Both depend on the state of the
  machine at that moment, so both are indexed by the number of inner iterations made so
  far.
\<close>

record world =
  get_test_devs :: "nat \<Rightarrow> TestRunner \<Rightarrow> error + Device \<times> Device"
  ret_code_of :: "nat \<Rightarrow> TestRunner \<Rightarrow> int"

text \<open>
  \<open>TestPlanRunner\<close> is abstract; the repository has two runner classes, which differ in
  \<open>get_test_devs\<close> alone. \<open>hw k\<close> is the machine during iteration \<open>k\<close> and \<open>scripts\<close>
  gives the exit codes.
\<close>

definition TestPlanRunnerHIL ::
  "(nat \<Rightarrow> nat \<Rightarrow> hardware) \<Rightarrow> catalogue_entry list \<Rightarrow> string option
     \<Rightarrow> (nat \<Rightarrow> TestRunner \<Rightarrow> int) \<Rightarrow> world" where
  "TestPlanRunnerHIL hw hil_devs board_arg scripts =
     \<lparr>get_test_devs = (\<lambda>k. HIL_get_test_devs (hw k) hil_devs board_arg),
      ret_code_of = scripts\<rparr>"

definition TestPlanRunnerPorts ::
  "(nat \<Rightarrow> hardware) \<Rightarrow> string option \<Rightarrow> string option
     \<Rightarrow> (nat \<Rightarrow> TestRunner \<Rightarrow> int) \<Rightarrow> world" where
  "TestPlanRunnerPorts hw dut_port stub_port scripts =
     \<lparr>get_test_devs = (\<lambda>k. Ports_get_test_devs (hw k) dut_port stub_port),
      ret_code_of = scripts\<rparr>"

text \<open>\<open>__get_test_list\<close>, from the loaded plan and the names on the command line.\<close>

definition get_test_list :: "TestRunner list \<Rightarrow> string list \<Rightarrow> TestRunner list" where
  "get_test_list test_plan_list test_name_list =
     (if test_name_list = [] then test_plan_list
      else concat (map (\<lambda>n. filter (\<lambda>test. name test = n) test_plan_list) test_name_list))"

text \<open>
  One pass, the \<open>for test in test_list\<close> loop of \<open>run\<close>. The state is the iteration
  counter and the result tracker. Nothing catches an exception, so one that
  \<open>get_test_devs\<close> or \<open>test.run\<close> raises ends the pass and the run.
  \<open>__reset_switchable_devs\<close> acts on the hardware only and polls at most five times, so
  it is not a step of the model; logging is left out.
\<close>

fun run_tests ::
  "world \<Rightarrow> TestRunner list \<Rightarrow> nat \<times> TestPlanResults \<Rightarrow> error + nat \<times> TestPlanResults" where
  "run_tests w [] (k, test_results) = Inr (k, test_results)"
| "run_tests w (test # rest) (k, test_results) =
     (case get_test_devs w k test of
        Inl e \<Rightarrow> Inl e
      | Inr (dut_dev, stub_dev) \<Rightarrow>
          (let (dut_port, stub_port) = get_test_ports dut_dev stub_dev
           in if \<not> are_supported_devs_available test dut_port stub_port then
                run_tests w rest (Suc k, register_skip (name test) test_results)
              else
                (case TestRunner_run test (ret_code_of w k test) of
                   Inl e \<Rightarrow> Inl e
                 | Inr ret_code \<Rightarrow>
                     if ret_code \<noteq> 0 then
                       run_tests w rest (Suc k, register_fail (name test) test_results)
                     else
                       run_tests w rest (Suc k, register_pass (name test) test_results))))"

text \<open>
  The \<open>while pending_retries\<close> loop, as a partial function: \<open>None\<close> would mean that the
  loop does not return. The last argument counts the passes made; the source has no such
  counter, it is there to state how many passes a run takes.
\<close>

partial_function (option) run_loop ::
  "world \<Rightarrow> TestRunner list \<Rightarrow> nat \<times> TestPlanResults \<Rightarrow> nat
     \<Rightarrow> (error + TestPlanResults \<times> nat) option" where
  "run_loop w test_list st passes =
     (case run_tests w test_list st of
        Inl e \<Rightarrow> Some (Inl e)
      | Inr st' \<Rightarrow>
          (let test_list' = filter_retries (snd st') test_list
           in if test_list' \<noteq> [] then run_loop w test_list' st' (Suc passes)
              else Some (Inr (snd st', Suc passes))))"

text \<open>The exit status that \<open>run\<close> asks for: \<open>sys.exit(1)\<close> when the failed list is not
  empty, a normal return otherwise.\<close>

definition exit_code :: "TestPlanResults \<Rightarrow> int" where
  "exit_code test_results = (if fail_test_name_list test_results \<noteq> [] then 1 else 0)"

text \<open>\<open>TestPlanRunner.run\<close>: the final tracker, the number of passes and the exit
  status, or the exception that ended the run, or \<open>None\<close> for a loop that never ends.\<close>

definition run ::
  "world \<Rightarrow> TestRunner list \<Rightarrow> int \<Rightarrow> (error + TestPlanResults \<times> nat \<times> int) option" where
  "run w test_list max_retries_arg =
     (case run_loop w test_list (0, TestPlanResults_init max_retries_arg) 0 of
        None \<Rightarrow> None
      | Some (Inl e) \<Rightarrow> Some (Inl e)
      | Some (Inr (test_results, passes)) \<Rightarrow>
          Some (Inr (test_results, passes, exit_code test_results)))"

section \<open>Predicates used to state the properties\<close>

text \<open>The remaining count that the ledger holds for a name, if it holds one.\<close>

definition remaining :: "TestPlanResults \<Rightarrow> string \<Rightarrow> int option" where
  "remaining self n =
     map_option (\<lambda>i. retries (retry_test_list self ! i))
       (get_test_retry_index (retry_test_list self) n)"


text \<open>
  The passes of a run as a relation on the configurations of the \<open>while\<close> loop, a test
  list and a loop state: \<open>later_pass w (ts, st) (ts', st')\<close> holds when the loop, having
  begun a pass over \<open>ts\<close> in state \<open>st\<close>, begins a later pass over \<open>ts'\<close> in state
  \<open>st'\<close>. Each step is one turn of the loop: the pass over the list, then
  \<open>filter_retries\<close>, whose result is not empty.
\<close>

inductive later_pass ::
  "world \<Rightarrow> TestRunner list \<times> nat \<times> TestPlanResults
     \<Rightarrow> TestRunner list \<times> nat \<times> TestPlanResults \<Rightarrow> bool" for w where
  following: "run_tests w ts st = Inr st' \<Longrightarrow> filter_retries (snd st') ts \<noteq> []
     \<Longrightarrow> later_pass w (ts, st) (filter_retries (snd st') ts, st')"
| further: "later_pass w c (ts, st) \<Longrightarrow> run_tests w ts st = Inr st'
     \<Longrightarrow> filter_retries (snd st') ts \<noteq> []
     \<Longrightarrow> later_pass w c (filter_retries (snd st') ts, st')"

text \<open>
  The tracker states that a run over \<open>ts0\<close> with \<open>max_retries = m\<close> goes through: the
  state after any number of iterations of the first pass, or of a later pass.
\<close>

inductive visited :: "world \<Rightarrow> TestRunner list \<Rightarrow> int \<Rightarrow> TestPlanResults \<Rightarrow> bool"
  for w ts0 m where
  in_first_pass: "ts0 = ts1 @ ts2 \<Longrightarrow> run_tests w ts1 (0, TestPlanResults_init m) = Inr (k, r)
     \<Longrightarrow> visited w ts0 m r"
| in_later_pass: "later_pass w (ts0, 0, TestPlanResults_init m) (ts1 @ ts2, st)
     \<Longrightarrow> run_tests w ts1 st = Inr (k, r) \<Longrightarrow> visited w ts0 m r"

section \<open>Scenarios\<close>

text \<open>The test \<open>T3\<close>, whose type is inferred as \<open>single\<close>, a two-device test, and the
  board that both name.\<close>

definition hil_board :: string where
  "hil_board = ''CY8CKIT-062S2-AI''"

definition test_T3 :: TestRunner where
  "test_T3 = TestRunner_init ''T3'' [''basics''] [] 0 None
     [\<lparr>board = Some hil_board, version = None\<rparr>] [] 0 None []"

definition test_multi :: TestRunner where
  "test_multi = TestRunner_init ''bluetooth'' [''multi_bluetooth''] [] 0 None
     [\<lparr>board = Some hil_board, version = None\<rparr>] [] 0 (Some ''multi'') []"

text \<open>A tool run that fails for a reason other than missing devices, after it has
  printed the state of a hub.\<close>

definition failing_proc :: CompletedProcess where
  "failing_proc =
     \<lparr>returncode = 1,
      stdout = join_nl [''Current status for hub 1-1.3 [...]'', ''  Port 1: 0100 off''],
      stderr = ''Error: permission denied''\<rparr>"

text \<open>A tool run on a machine without a switchable hub.\<close>

definition no_hubs :: CompletedProcess where
  "no_hubs = \<lparr>returncode = 1, stdout = [], stderr = ''No compatible devices detected!''\<rparr>"



definition board_connected :: hardware where
  "board_connected =
     \<lparr>comports = [\<lparr>device = ''/dev/ttyACM0'', serial_number = Some ''1106035A012D2400''\<rparr>],
      uhubctl_search = (\<lambda>desc. no_hubs)\<rparr>"


text \<open>The static-port runner on \<open>/dev/ttyACM0\<close>, with a script that exits with 1 every
  time.\<close>

definition ports_always_failing :: world where
  "ports_always_failing =
     TestPlanRunnerPorts (\<lambda>k. board_connected) (Some ''/dev/ttyACM0'') None (\<lambda>k test. 1)"



section \<open>The output parser agrees with the protocol\<close>

lemma port_status_loop_sections:
  "port_status_loop ls cur hub port =
     (case find (\<lambda>(h, l). h = Some hub \<and> line_search_port l = Some port) (hub_sections cur ls) of
        None \<Rightarrow> ''unknown''
      | Some (h, line) \<Rightarrow>
          (if str_in '' off'' line then ''off''
           else if str_in '' power'' line \<and> str_in ''enable connect'' line then ''on connected''
           else if str_in '' power'' line then ''on''
           else ''unknown''))"
proof (induction ls arbitrary: cur)
  case Nil
  show ?case by simp
next
  case (Cons raw rest)
  show ?case
    by (simp add: Let_def Cons.IH eq_commute[of "Some hub"] eq_commute[of "Some port"])
qed

lemma re_search_hub_nonempty: "re_search_hub s = Some h \<Longrightarrow> h \<noteq> []"
  by (induction s) (auto split: if_splits)

lemma line_search_update_hub_nonempty:
  "cur \<noteq> Some [] \<Longrightarrow> line_search_update_hub l cur \<noteq> Some []"
  by (auto simp: line_search_update_hub_def split: option.splits dest: re_search_hub_nonempty)

lemma hub_port_by_desc_loop_sections:
  "cur \<noteq> Some [] \<Longrightarrow> hub_port_by_desc_loop ls cur sub =
     (case find (\<lambda>(h, l). h \<noteq> None \<and> line_search_port l \<noteq> None
                          \<and> line_search_port l \<noteq> Some 0 \<and> str_in sub l)
             (hub_sections cur ls) of
        None \<Rightarrow> (None, None)
      | Some (h, l) \<Rightarrow> (h, line_search_port l))"
proof (induction ls arbitrary: cur)
  case Nil
  show ?case by simp
next
  case (Cons raw rest)
  have ne: "line_search_update_hub (strip raw) cur \<noteq> Some []"
    using Cons.prems by (rule line_search_update_hub_nonempty)
  show ?case
    using ne by (simp add: Let_def Cons.IH[OF ne])
qed

text \<open>
  C1. For every captured output and every queried hub and port, the status search
  classifies the first line that matches the pair: a line containing \<open>" off"\<close> gives
  \<open>off\<close>; otherwise one containing \<open>" power"\<close> and \<open>"enable connect"\<close> gives
  \<open>on connected\<close>; otherwise one containing \<open>" power"\<close> gives \<open>on\<close>; any other matching
  line gives \<open>unknown\<close>; and when no line matches, the result is \<open>unknown\<close>. On the
  sample block the four queries of the specification give \<open>on connected\<close>, \<open>off\<close>,
  \<open>on connected\<close> and \<open>unknown\<close>.
\<close>

theorem getStatus_classifies_first_matching_line:
  "output_search_port_status \<lparr>last_cmd_output = out\<rparr> hub port =
     (case first_line_of_hub_port out hub port of
        None \<Rightarrow> ''unknown''
      | Some line \<Rightarrow>
          (if str_in '' off'' line then ''off''
           else if str_in '' power'' line \<and> str_in ''enable connect'' line then ''on connected''
           else if str_in '' power'' line then ''on''
           else ''unknown''))
   \<and> output_search_port_status \<lparr>last_cmd_output = sample_status_output\<rparr> ''2-1'' 3 = ''on connected''
   \<and> output_search_port_status \<lparr>last_cmd_output = sample_status_output\<rparr> ''1-1.3'' 1 = ''off''
   \<and> output_search_port_status \<lparr>last_cmd_output = sample_status_output\<rparr> ''1-1.3'' 3 = ''on connected''
   \<and> output_search_port_status \<lparr>last_cmd_output = sample_status_output\<rparr> ''1-1.3'' 2 = ''unknown''"
proof -
  have general: "output_search_port_status \<lparr>last_cmd_output = out\<rparr> hub port =
     (case first_line_of_hub_port out hub port of
        None \<Rightarrow> ''unknown''
      | Some line \<Rightarrow>
          (if str_in '' off'' line then ''off''
           else if str_in '' power'' line \<and> str_in ''enable connect'' line then ''on connected''
           else if str_in '' power'' line then ''on''
           else ''unknown''))"
    by (simp add: output_search_port_status_def first_line_of_hub_port_def
        port_status_loop_sections split: option.splits)
  have e1: "output_search_port_status \<lparr>last_cmd_output = sample_status_output\<rparr> ''2-1'' 3 = ''on connected''"
    by code_simp
  have e2: "output_search_port_status \<lparr>last_cmd_output = sample_status_output\<rparr> ''1-1.3'' 1 = ''off''"
    by code_simp
  have e3: "output_search_port_status \<lparr>last_cmd_output = sample_status_output\<rparr> ''1-1.3'' 3 = ''on connected''"
    by code_simp
  have e4: "output_search_port_status \<lparr>last_cmd_output = sample_status_output\<rparr> ''1-1.3'' 2 = ''unknown''"
    by code_simp
  from general e1 e2 e3 e4 show ?thesis by blast
qed

theorem getStatus_classifies_first_matching_line_witness:
  "first_line_of_hub_port sample_status_output ''1-1.3'' 1 = Some ''Port 1: 0100 off''
   \<and> output_search_port_status \<lparr>last_cmd_output = sample_status_output\<rparr> ''1-1.3'' 1 = ''off''"
proof -
  have l: "first_line_of_hub_port sample_status_output ''1-1.3'' 1 = Some ''Port 1: 0100 off''"
    by code_simp
  note t = getStatus_classifies_first_matching_line[of sample_status_output "''1-1.3''" 1]
  have "output_search_port_status \<lparr>last_cmd_output = sample_status_output\<rparr> ''1-1.3'' 1 = ''off''"
    by (rule conjunct1[OF conjunct2[OF conjunct2[OF t]]])
  with l show ?thesis by (rule conjI)
qed

section \<open>The tool boundary\<close>

lemma run_cmd_no_devices:
  assumes "returncode uhub_proc \<noteq> 0"
    and "str_in ''No compatible devices detected!'' (stderr uhub_proc)"
  shows "last_cmd_output (fst (run_cmd uhub_proc self)) = []"
  using assms by (simp add: run_cmd_def are_devices_detected_def)

lemma run_cmd_other_failure:
  assumes "returncode uhub_proc \<noteq> 0"
    and "\<not> str_in ''No compatible devices detected!'' (stderr uhub_proc)"
  shows "last_cmd_output (fst (run_cmd uhub_proc self)) = stdout uhub_proc"
    and "snd (run_cmd uhub_proc self) \<noteq> []"
  using assms by (simp_all add: run_cmd_def are_devices_detected_def Let_def)

text \<open>
  C2. The claim asks that a failing tool run other than "no devices" leaves the
  captured output empty. At \<open>failing_proc\<close> (exit code 1, another message on the error
  stream, some text on the output stream) the wrapper prints the error and then stores the
  output stream all the same, and the status query that follows reads \<open>off\<close> from it
  instead of \<open>unknown\<close>.
\<close>

theorem run_cmd_failure_keeps_stdout:
  "returncode failing_proc \<noteq> 0
   \<and> \<not> str_in ''No compatible devices detected!'' (stderr failing_proc)
   \<and> snd (run_cmd failing_proc \<lparr>last_cmd_output = []\<rparr>) = [''error: uhubctl command failed'']
   \<and> last_cmd_output (fst (run_cmd failing_proc \<lparr>last_cmd_output = []\<rparr>)) = stdout failing_proc
   \<and> last_cmd_output (fst (run_cmd failing_proc \<lparr>last_cmd_output = []\<rparr>)) \<noteq> []
   \<and> get_status failing_proc \<lparr>last_cmd_output = []\<rparr> ''1-1.3'' 1 = ''off''"
proof -
  have a: "returncode failing_proc \<noteq> 0" by (simp add: failing_proc_def)
  have b: "\<not> str_in ''No compatible devices detected!'' (stderr failing_proc)" by code_simp
  have c: "snd (run_cmd failing_proc \<lparr>last_cmd_output = []\<rparr>) = [''error: uhubctl command failed'']"
    using a b by (simp add: run_cmd_def are_devices_detected_def Let_def)
  have d: "last_cmd_output (fst (run_cmd failing_proc \<lparr>last_cmd_output = []\<rparr>)) = stdout failing_proc"
    using a b by (simp add: run_cmd_def are_devices_detected_def Let_def)
  have e: "stdout failing_proc \<noteq> []" by code_simp
  have f: "get_status failing_proc \<lparr>last_cmd_output = []\<rparr> ''1-1.3'' 1 = ''off''" by code_simp
  from a b c d e f show ?thesis by simp
qed


section \<open>The description search\<close>

lemma hub_sections_lines:
  "(h, l) \<in> set (hub_sections cur ls) \<Longrightarrow> l \<in> strip ` set ls"
  by (induction ls arbitrary: cur) (auto simp: Let_def)

text \<open>
  C3. \<open>uhubctl\<close> numbers the ports of a hub from 1. For every captured output in which
  no port line carries the number \<open>0\<close> and for every substring, the search returns the
  hub of the section and the port number of the first port line within a hub section
  whose text contains the substring, and \<open>(None, None)\<close> when there is no such line. On
  the docstring example it returns \<open>("1-1", 2)\<close> for \<open>1106035A012D2400\<close> and
  \<open>(None, None)\<close> for a substring that occurs in no line.
\<close>

theorem getHubPortByDesc_first_matching_port_line:
  assumes "\<forall>raw \<in> set (output_lines out). line_search_port (strip raw) \<noteq> Some 0"
  shows "output_search_hub_port_by_desc \<lparr>last_cmd_output = out\<rparr> sub = hub_port_by_desc_spec out sub
   \<and> output_search_hub_port_by_desc \<lparr>last_cmd_output = sample_search_output\<rparr> ''1106035A012D2400''
       = (Some ''1-1'', Some 2)
   \<and> output_search_hub_port_by_desc \<lparr>last_cmd_output = sample_search_output\<rparr> ''FFFFFFFFFFFFFFFF''
       = (None, None)"
proof -
  let ?secs = "hub_sections None (output_lines out)"
  have same: "find (\<lambda>(h, l). h \<noteq> None \<and> line_search_port l \<noteq> None
                          \<and> line_search_port l \<noteq> Some 0 \<and> str_in sub l) ?secs
      = find (\<lambda>(h, l). h \<noteq> None \<and> line_search_port l \<noteq> None \<and> str_in sub l) ?secs"
  proof (rule find_cong[OF refl])
    fix x assume x: "x \<in> set ?secs"
    obtain h l where hl: "x = (h, l)" by (cases x)
    from x hl have "l \<in> strip ` set (output_lines out)" by (auto dest: hub_sections_lines)
    with assms have "line_search_port l \<noteq> Some 0" by auto
    with hl show "(case x of (h, l) \<Rightarrow> h \<noteq> None \<and> line_search_port l \<noteq> None
                          \<and> line_search_port l \<noteq> Some 0 \<and> str_in sub l)
        = (case x of (h, l) \<Rightarrow> h \<noteq> None \<and> line_search_port l \<noteq> None \<and> str_in sub l)"
      by simp
  qed
  have loop: "output_search_hub_port_by_desc \<lparr>last_cmd_output = out\<rparr> sub =
      (case find (\<lambda>(h, l). h \<noteq> None \<and> line_search_port l \<noteq> None
                          \<and> line_search_port l \<noteq> Some 0 \<and> str_in sub l) ?secs of
         None \<Rightarrow> (None, None)
       | Some (h, l) \<Rightarrow> (h, line_search_port l))"
    by (simp add: output_search_hub_port_by_desc_def hub_port_by_desc_loop_sections)
  have general: "output_search_hub_port_by_desc \<lparr>last_cmd_output = out\<rparr> sub
      = hub_port_by_desc_spec out sub"
    by (simp only: loop same hub_port_by_desc_spec_def)
  have e1: "output_search_hub_port_by_desc \<lparr>last_cmd_output = sample_search_output\<rparr> ''1106035A012D2400''
       = (Some ''1-1'', Some 2)"
    by code_simp
  have e2: "output_search_hub_port_by_desc \<lparr>last_cmd_output = sample_search_output\<rparr> ''FFFFFFFFFFFFFFFF''
       = (None, None)"
    by code_simp
  from general e1 e2 show ?thesis by simp
qed

theorem getHubPortByDesc_first_matching_port_line_witness:
  "list_all (\<lambda>raw. line_search_port (strip raw) \<noteq> Some 0) (output_lines sample_search_output)
   \<and> hub_port_by_desc_spec sample_search_output ''1106035A012D2400'' = (Some ''1-1'', Some 2)
   \<and> output_search_hub_port_by_desc \<lparr>last_cmd_output = sample_search_output\<rparr> ''1106035A012D2400''
       = hub_port_by_desc_spec sample_search_output ''1106035A012D2400''"
proof -
  have ports: "list_all (\<lambda>raw. line_search_port (strip raw) \<noteq> Some 0)
      (output_lines sample_search_output)"
    by code_simp
  then have hyp: "\<forall>raw \<in> set (output_lines sample_search_output).
      line_search_port (strip raw) \<noteq> Some 0"
    by (simp add: list_all_iff)
  note t = getHubPortByDesc_first_matching_port_line[OF hyp, of "''1106035A012D2400''"]
  have a: "output_search_hub_port_by_desc \<lparr>last_cmd_output = sample_search_output\<rparr> ''1106035A012D2400''
      = hub_port_by_desc_spec sample_search_output ''1106035A012D2400''"
    by (rule conjunct1[OF t])
  have b: "output_search_hub_port_by_desc \<lparr>last_cmd_output = sample_search_output\<rparr> ''1106035A012D2400''
      = (Some ''1-1'', Some 2)"
    by (rule conjunct1[OF conjunct2[OF t]])
  have c: "hub_port_by_desc_spec sample_search_output ''1106035A012D2400'' = (Some ''1-1'', Some 2)"
    by (rule trans[OF a[symmetric] b])
  from ports c a show ?thesis by (intro conjI)
qed

section \<open>The retry ledger\<close>

lemma get_test_retry_index_absent:
  "n \<notin> test_name ` set rs \<Longrightarrow> get_test_retry_index rs n = None"
  by (induction rs) auto

lemma get_test_retry_index_append_new:
  "n \<notin> test_name ` set rs \<Longrightarrow>
   get_test_retry_index (rs @ [\<lparr>test_name = n, retries = m\<rparr>]) n = Some (length rs)"
  by (induction rs) auto

lemma remove1_append_new: "e \<notin> set rs \<Longrightarrow> remove1 e (rs @ [e]) = rs"
  by (induction rs) auto

lemma register_fail_first:
  assumes "n \<notin> set (fail_test_name_list s)"
  shows "register_fail n s =
    s\<lparr>fail_test_name_list := fail_test_name_list s @ [n],
      retry_test_list := retry_test_list s @ [\<lparr>test_name = n, retries = max_retries s\<rparr>]\<rparr>"
  using assms by (simp add: register_fail_def)

lemma register_fail_again:
  assumes "n \<notin> test_name ` set rs" "n \<in> set (fail_test_name_list s)"
    "retry_test_list s = rs @ [\<lparr>test_name = n, retries = m\<rparr>]"
  shows "register_fail n s = s\<lparr>retry_test_list := rs @ [\<lparr>test_name = n, retries = m - 1\<rparr>]\<rparr>"
  using assms by (simp add: register_fail_def get_test_retry_index_append_new)

lemma register_pass_after_fail:
  assumes "n \<notin> test_name ` set rs" "n \<notin> set fs"
    "fail_test_name_list s = fs @ [n]"
    "retry_test_list s = rs @ [\<lparr>test_name = n, retries = m\<rparr>]"
  shows "register_pass n s =
    (if n \<notin> set (pass_test_name_list s)
     then s\<lparr>fail_test_name_list := fs, retry_test_list := rs,
            pass_test_name_list := pass_test_name_list s @ [n]\<rparr>
     else s\<lparr>fail_test_name_list := fs, retry_test_list := rs\<rparr>)"
proof -
  have e: "\<lparr>test_name = n, retries = m\<rparr> \<notin> set rs"
    using assms(1) by force
  show ?thesis
    using assms e
    by (simp add: register_pass_def Let_def get_test_retry_index_append_new
        remove1_append_new remove1_append)
qed

lemma filter_retries_excludes:
  assumes "\<forall>e \<in> set (retry_test_list s). test_name e = n \<longrightarrow> retries e \<le> 0"
  shows "\<forall>t \<in> set (filter_retries s tests). name t \<noteq> n"
  using assms by (auto simp: filter_retries_def split: if_splits)

text \<open>
  C4. Take any tracker state in which the name is neither failed nor in the ledger (the
  fresh tracker is one). After \<open>register_fail\<close> the ledger holds \<open>max_retries\<close> for the
  name; after the second \<open>register_fail\<close> it holds one less; after \<open>register_pass\<close> it holds
  no entry for the name, the ledger is as it was before the three calls, and the name is
  passed and not failed. With \<open>max_retries = 0\<close> one \<open>register_fail\<close> leaves the name
  failed, and \<open>filter_retries\<close> returns no test of that name.
\<close>

theorem retry_ledger_law:
  assumes "n \<notin> set (fail_test_name_list s)" and "n \<notin> test_name ` set (retry_test_list s)"
  shows "remaining (register_fail n s) n = Some (max_retries s)
    \<and> remaining (register_fail n (register_fail n s)) n = Some (max_retries s - 1)
    \<and> remaining (register_pass n (register_fail n (register_fail n s))) n = None
    \<and> n \<notin> test_name ` set (retry_test_list (register_pass n (register_fail n (register_fail n s))))
    \<and> retry_test_list (register_pass n (register_fail n (register_fail n s))) = retry_test_list s
    \<and> n \<notin> set (fail_test_name_list (register_pass n (register_fail n (register_fail n s))))
    \<and> n \<in> set (pass_test_name_list (register_pass n (register_fail n (register_fail n s))))
    \<and> (max_retries s = 0 \<longrightarrow>
          n \<in> set (fail_test_name_list (register_fail n s))
          \<and> (\<forall>t \<in> set (filter_retries (register_fail n s) tests). name t \<noteq> n))"
proof -
  let ?rs = "retry_test_list s"
  let ?fs = "fail_test_name_list s"
  define S1 where "S1 = s\<lparr>fail_test_name_list := ?fs @ [n],
      retry_test_list := ?rs @ [\<lparr>test_name = n, retries = max_retries s\<rparr>]\<rparr>"
  define S2 where "S2 = S1\<lparr>retry_test_list := ?rs @ [\<lparr>test_name = n, retries = max_retries s - 1\<rparr>]\<rparr>"
  define S3 where "S3 = register_pass n S2"
  have s1: "register_fail n s = S1"
    unfolding S1_def using assms(1) by (rule register_fail_first)
  have s2: "register_fail n S1 = S2"
    unfolding S2_def by (rule register_fail_again[OF assms(2)]) (simp_all add: S1_def)
  have s3: "S3 = (if n \<notin> set (pass_test_name_list S2)
     then S2\<lparr>fail_test_name_list := ?fs, retry_test_list := ?rs,
            pass_test_name_list := pass_test_name_list S2 @ [n]\<rparr>
     else S2\<lparr>fail_test_name_list := ?fs, retry_test_list := ?rs\<rparr>)"
    unfolding S3_def
    by (rule register_pass_after_fail[OF assms(2) assms(1)]) (simp_all add: S2_def S1_def)
  have r1: "remaining S1 n = Some (max_retries s)"
    by (simp add: remaining_def S1_def get_test_retry_index_append_new[OF assms(2)])
  have r2: "remaining S2 n = Some (max_retries s - 1)"
    by (simp add: remaining_def S2_def get_test_retry_index_append_new[OF assms(2)])
  have led3: "retry_test_list S3 = ?rs" and f3: "fail_test_name_list S3 = ?fs"
    and p3: "n \<in> set (pass_test_name_list S3)"
    by (simp_all add: s3)
  have r3: "remaining S3 n = None"
    by (simp add: remaining_def led3 get_test_retry_index_absent[OF assms(2)])
  have zero: "max_retries s = 0 \<longrightarrow>
          n \<in> set (fail_test_name_list S1) \<and> (\<forall>t \<in> set (filter_retries S1 tests). name t \<noteq> n)"
  proof
    assume z: "max_retries s = 0"
    have "\<forall>e \<in> set (retry_test_list S1). test_name e = n \<longrightarrow> retries e \<le> 0"
      using assms(2) z by (auto simp: S1_def)
    then have "\<forall>t \<in> set (filter_retries S1 tests). name t \<noteq> n"
      by (rule filter_retries_excludes)
    moreover have "n \<in> set (fail_test_name_list S1)" by (simp add: S1_def)
    ultimately show "n \<in> set (fail_test_name_list S1)
        \<and> (\<forall>t \<in> set (filter_retries S1 tests). name t \<noteq> n)" by simp
  qed
  have s3': "register_pass n S2 = S3" by (simp only: S3_def)
  from r1 r2 r3 led3 f3 p3 zero assms show ?thesis
    by (simp only: s1 s2 s3') simp
qed

theorem retry_ledger_law_witness:
  "remaining (register_fail ''T3'' (TestPlanResults_init 0)) ''T3'' = Some 0
   \<and> remaining (register_fail ''T3'' (register_fail ''T3'' (TestPlanResults_init 0))) ''T3'' = Some (- 1)
   \<and> retry_test_list (register_pass ''T3'' (register_fail ''T3'' (register_fail ''T3'' (TestPlanResults_init 0)))) = []
   \<and> ''T3'' \<in> set (fail_test_name_list (register_fail ''T3'' (TestPlanResults_init 0)))
   \<and> filter_retries (register_fail ''T3'' (TestPlanResults_init 0)) [test_T3] = []"
proof -
  let ?F = "filter_retries (register_fail ''T3'' (TestPlanResults_init 0)) [test_T3]"
  have a: "''T3'' \<notin> set (fail_test_name_list (TestPlanResults_init 0))"
    by (simp add: TestPlanResults_init_def)
  have b: "''T3'' \<notin> test_name ` set (retry_test_list (TestPlanResults_init 0))"
    by (simp add: TestPlanResults_init_def)
  have m: "max_retries (TestPlanResults_init 0) = 0" "retry_test_list (TestPlanResults_init 0) = []"
    by (simp_all add: TestPlanResults_init_def)
  note law = retry_ledger_law[OF a b, of "[test_T3]"]
  have nm: "name test_T3 = ''T3''"
    by (simp add: test_T3_def TestRunner_init_def)
  have "set ?F \<subseteq> {test_T3}"
    by (auto simp: filter_retries_def split: if_splits)
  moreover from law m have "\<forall>t \<in> set ?F. name t \<noteq> ''T3''" by simp
  ultimately have "?F = []" using nm by (cases ?F) auto
  with law m show ?thesis by simp
qed

section \<open>Test-type inference\<close>

text \<open>
  C9. A test record built with an explicit type keeps it unchanged. Built without one,
  its type is \<open>multi_stub\<close> when a stub script is present, else \<open>single_post_delay\<close> when
  the delay after a test is positive, else \<open>single\<close>; so an inferred type is never
  \<open>multi\<close> or \<open>custom\<close>.
\<close>

theorem type_inference:
  "type (TestRunner_init nm scripts excl delay stub duts stubs stub_delay (Some ty) args) = ty
   \<and> type (TestRunner_init nm scripts excl delay stub duts stubs stub_delay None args)
       = (if stub \<noteq> None then ''multi_stub''
          else if delay > 0 then ''single_post_delay''
          else ''single'')
   \<and> type (TestRunner_init nm scripts excl delay stub duts stubs stub_delay None args) \<noteq> ''multi''
   \<and> type (TestRunner_init nm scripts excl delay stub duts stubs stub_delay None args) \<noteq> ''custom''"
  by (simp add: TestRunner_init_def determine_implicit_type_def)

theorem type_inference_witness:
  "type test_T3 = ''single'' \<and> type test_multi = ''multi''"
  using type_inference[of "''T3''" "[''basics'']" "[]" 0 None
      "[\<lparr>board = Some hil_board, version = None\<rparr>]" "[]" 0 "''multi''" "[]"]
    type_inference[of "''bluetooth''" "[''multi_bluetooth'']" "[]" 0 None
      "[\<lparr>board = Some hil_board, version = None\<rparr>]" "[]" 0 "''multi''" "[]"]
  by (simp add: test_T3_def test_multi_def)


section \<open>Device resolution\<close>

lemma Device_init_required:
  "Device_init hw None uid_arg features_arg access_arg switch_arg = Inl TypeError"
  by (simp add: Device_init_def)

lemma HIL_get_test_devs_raises:
  "HIL_get_test_devs hw hil_devs board_arg test = Inl TypeError"
  by (simp add: HIL_get_test_devs_def Device_init_required)

lemma Ports_get_test_devs_raises:
  "Ports_get_test_devs hw dut_port stub_port test = Inl TypeError"
  by (simp add: Ports_get_test_devs_def Device_init_required)

text \<open>Both runner classes of the repository raise in \<open>get_test_devs\<close>, at every
  iteration and for every test.\<close>

lemma runner_raises:
  assumes "w = TestPlanRunnerHIL hw hil_devs board_arg scripts
    \<or> w = TestPlanRunnerPorts hw' dut_port stub_port scripts'"
  shows "get_test_devs w k test = Inl TypeError"
  using assms
  by (auto simp: TestPlanRunnerHIL_def TestPlanRunnerPorts_def
      HIL_get_test_devs_raises Ports_get_test_devs_raises)


section \<open>The execution loop\<close>

lemma run_tests_raises:
  "get_test_devs w k test = Inl e \<Longrightarrow> run_tests w (test # rest) (k, r) = Inl e"
  by simp

lemma run_raises:
  "get_test_devs w 0 test = Inl e \<Longrightarrow> run w (test # rest) m = Some (Inl e)"
  by (simp add: run_def run_loop.simps)




subsection \<open>The states of a run\<close>

lemma later_pass_prepend:
  assumes "later_pass w c' c''" "c' = (filter_retries (snd st') ts, st')"
    and "run_tests w ts st = Inr st'" "filter_retries (snd st') ts \<noteq> []"
  shows "later_pass w (ts, st) c''"
  using assms
proof (induction rule: later_pass.induct)
  case (following ts1 st1 st1')
  have "later_pass w (ts, st) (ts1, st1)"
    using later_pass.following[OF following(4) following(5)] following(3) by simp
  from later_pass.further[OF this following(1) following(2)] show ?case .
next
  case (further c ts1 st1 st1')
  from further(4)[OF further(5) further(6) further(7)]
  have "later_pass w (ts, st) (ts1, st1)" .
  from later_pass.further[OF this further(2) further(3)] show ?case .
qed

lemma run_loop_last_pass:
  assumes "run_loop w ts st p = Some y"
  shows "\<forall>r q. y = Inr (r, q) \<longrightarrow>
    (\<exists>k. run_tests w ts st = Inr (k, r))
    \<or> (\<exists>ts' st' k. later_pass w (ts, st) (ts', st') \<and> run_tests w ts' st' = Inr (k, r))"
proof (rule run_loop.raw_induct
    [where P = "\<lambda>w ts st p y. \<forall>r q. y = Inr (r, q) \<longrightarrow>
      (\<exists>k. run_tests w ts st = Inr (k, r))
      \<or> (\<exists>ts' st' k. later_pass w (ts, st) (ts', st') \<and> run_tests w ts' st' = Inr (k, r))",
     OF _ assms])
  fix rl w ts st p y
  assume IH: "\<And>w ts st p y. rl w ts st p = Some y \<Longrightarrow> \<forall>r q. y = Inr (r, q) \<longrightarrow>
      (\<exists>k. run_tests w ts st = Inr (k, r))
      \<or> (\<exists>ts' st' k. later_pass w (ts, st) (ts', st') \<and> run_tests w ts' st' = Inr (k, r))"
    and body: "(case run_tests w ts st of
                  Inl e \<Rightarrow> Some (Inl e)
                | Inr st' \<Rightarrow>
                    (let test_list' = filter_retries (snd st') ts
                     in if test_list' \<noteq> [] then rl w test_list' st' (Suc p)
                        else Some (Inr (snd st', Suc p)))) = Some y"
  show "\<forall>r q. y = Inr (r, q) \<longrightarrow>
      (\<exists>k. run_tests w ts st = Inr (k, r))
      \<or> (\<exists>ts' st' k. later_pass w (ts, st) (ts', st') \<and> run_tests w ts' st' = Inr (k, r))"
  proof (intro allI impI)
    fix r q assume y: "y = Inr (r, q)"
    show "(\<exists>k. run_tests w ts st = Inr (k, r))
      \<or> (\<exists>ts' st' k. later_pass w (ts, st) (ts', st') \<and> run_tests w ts' st' = Inr (k, r))"
    proof (cases "run_tests w ts st")
      case (Inl e)
      with body y show ?thesis by simp
    next
      case (Inr st')
      show ?thesis
      proof (cases "filter_retries (snd st') ts = []")
        case True
        with body Inr y have "snd st' = r" by (simp add: Let_def)
        with Inr have "run_tests w ts st = Inr (fst st', r)" by (cases st') simp
        then show ?thesis by blast
      next
        case False
        with body Inr have "rl w (filter_retries (snd st') ts) st' (Suc p) = Some y"
          by (simp add: Let_def)
        from IH[OF this] y
        consider (a) k where "run_tests w (filter_retries (snd st') ts) st' = Inr (k, r)"
          | (b) ts' st'' k where "later_pass w (filter_retries (snd st') ts, st') (ts', st'')"
              "run_tests w ts' st'' = Inr (k, r)"
          by blast
        then show ?thesis
        proof cases
          case a
          with later_pass.following[OF Inr False] show ?thesis by blast
        next
          case b
          from later_pass_prepend[OF b(1) refl Inr False] b(2) show ?thesis by blast
        qed
      qed
    qed
  qed
qed

text \<open>The tracker that \<open>run\<close> returns is one of the visited states.\<close>

lemma run_result_visited:
  assumes "run w ts0 m = Some (Inr (r, passes, code))"
  shows "visited w ts0 m r"
proof -
  from assms obtain q where "run_loop w ts0 (0, TestPlanResults_init m) 0 = Some (Inr (r, q))"
    by (auto simp: run_def split: option.splits sum.splits)
  from run_loop_last_pass[OF this]
  consider (a) k where "run_tests w ts0 (0, TestPlanResults_init m) = Inr (k, r)"
    | (b) ts' st' k where "later_pass w (ts0, 0, TestPlanResults_init m) (ts', st')"
        "run_tests w ts' st' = Inr (k, r)"
    by blast
  then show ?thesis
  proof cases
    case a
    from visited.in_first_pass[of ts0 ts0 "[]", OF _ a] show ?thesis by simp
  next
    case b
    from visited.in_later_pass[of w ts0 m ts' "[]" st', OF _ b(2)] b(1) show ?thesis by simp
  qed
qed


subsection \<open>What the loop never reaches\<close>

text \<open>The tracker by itself does what the end-to-end scenario needs: with
  \<open>max_retries = 2\<close> the test is listed for a retry after the first and the second
  failure and no more after the third, when the failed list is its name alone and the
  exit status is 1.\<close>

lemma three_failures_exhaust_retries:
  "filter_retries (register_fail ''T3'' (TestPlanResults_init 2)) [test_T3] = [test_T3]
   \<and> filter_retries (register_fail ''T3'' (register_fail ''T3'' (TestPlanResults_init 2)))
         [test_T3] = [test_T3]
   \<and> filter_retries
         (register_fail ''T3'' (register_fail ''T3'' (register_fail ''T3'' (TestPlanResults_init 2))))
         [test_T3] = []
   \<and> fail_test_name_list
         (register_fail ''T3'' (register_fail ''T3'' (register_fail ''T3'' (TestPlanResults_init 2))))
       = [''T3'']
   \<and> exit_code
         (register_fail ''T3'' (register_fail ''T3'' (register_fail ''T3'' (TestPlanResults_init 2))))
       = 1"
  by (simp add: filter_retries_def register_fail_def TestPlanResults_init_def test_T3_def
      TestRunner_init_def exit_code_def)

text \<open>The availability gate by itself is closed for a DUT without an access endpoint,
  and for a two-device test whose stub has none.\<close>

lemma gate_closed_for_unbound_devices:
  assumes "access dut_dev = None \<or> (requires_multiple_devs test \<and> access stub_dev = None)"
  shows "\<not> are_supported_devs_available test (fst (get_test_ports dut_dev stub_dev))
           (snd (get_test_ports dut_dev stub_dev))"
  using assms by (auto simp: get_test_ports_def are_supported_devs_available_def Let_def)

text \<open>
  C7. The plan is the test \<open>T3\<close> of type \<open>single\<close> alone, the runner is the static-port
  runner on \<open>/dev/ttyACM0\<close>, the script would exit with 1 every time, and
  \<open>max_retries\<close> is 2. The claim expects three passes, \<open>failed = [T3]\<close> and the exit
  status 1 that \<open>run\<close> asks for when the failed list is not empty. The run ends in the
  first iteration of the first pass instead: \<open>get_test_devs\<close> raises \<open>TypeError\<close>, no
  pass is completed and nothing is registered.
\<close>

theorem always_failing_run_raises:
  "type test_T3 = ''single''
   \<and> run_tests ports_always_failing [test_T3] (0, TestPlanResults_init 2) = Inl TypeError
   \<and> run ports_always_failing [test_T3] 2 = Some (Inl TypeError)"
proof -
  have r: "get_test_devs ports_always_failing 0 test_T3 = Inl TypeError"
    unfolding ports_always_failing_def by (rule runner_raises[OF disjI2[OF refl]])
  have a: "type test_T3 = ''single''"
    by (simp add: test_T3_def TestRunner_init_def determine_implicit_type_def)
  from a run_tests_raises[OF r] run_raises[OF r] show ?thesis by simp
qed






end
